theory Spec2Isabelle
  imports Complex_Main "HOL-Library.Word"
begin

section \<open>JavaScript strings and arrays\<close>

text \<open>
  A JavaScript string is a sequence of UTF-16 code units; \<open>length\<close>, \<open>substring\<close>,
  \<open>repeat\<close>, \<open>padStart\<close>, \<open>split\<close> and \<open>trim\<close> all count and compare code units.
  ASCII literals of the source are written \<open>lit ''...''\<close>; the two non-ASCII characters
  that occur in its templates are single code units of their own.

  A JavaScript \<open>number\<close> that holds a line, a column or a count is modelled as an
  unbounded \<open>int\<close>: the doubles of the source are exact on the integers that a
  checker's report carries. The one number of the report that is not a count, the
  time in seconds, is a \<open>real\<close>.
\<close>

type_synonym jsstring = "16 word list"

definition lit :: "string \<Rightarrow> jsstring" where
  "lit s = map of_char s"

definition SPACE :: "16 word" where
  "SPACE = 0x20"

definition CARET :: "16 word" where
  "CARET = 0x5E"

definition NEWLINE :: "16 word" where
  "NEWLINE = 0x0A"

definition BAR :: "16 word" where
  \<comment> \<open>U+2502, the box-drawing vertical line of the gutter\<close>
  "BAR = 0x2502"

definition ARROW :: "16 word" where
  \<comment> \<open>U+2192, the rightwards arrow before the rule name\<close>
  "ARROW = 0x2192"

datatype js_error = RangeError

text \<open>\<open>String.prototype.repeat\<close>: a negative count throws a RangeError.\<close>

definition js_repeat :: "jsstring \<Rightarrow> int \<Rightarrow> js_error + jsstring" where
  "js_repeat s count =
     (if count < 0 then Inl RangeError else Inr (concat (replicate (nat count) s)))"

text \<open>
  \<open>String.prototype.substring(start, end)\<close>: both arguments are clamped to
  \<open>[0, length]\<close> and swapped when the first is the larger; \<open>substring(start)\<close>
  runs to the end of the string.
\<close>

definition js_substring :: "jsstring \<Rightarrow> int \<Rightarrow> int \<Rightarrow> jsstring" where
  "js_substring s a b =
     (let len = int (length s);
          finalStart = min (max a 0) len;
          finalEnd = min (max b 0) len;
          from = min finalStart finalEnd;
          to = max finalStart finalEnd
      in take (nat (to - from)) (drop (nat from) s))"

definition js_substring_from :: "jsstring \<Rightarrow> int \<Rightarrow> jsstring" where
  "js_substring_from s a = js_substring s a (int (length s))"

text \<open>\<open>String.prototype.padStart(n)\<close> with the default filler, a space.\<close>

definition js_padStart :: "jsstring \<Rightarrow> nat \<Rightarrow> jsstring" where
  "js_padStart s n = replicate (n - length s) SPACE @ s"

text \<open>
  \<open>String.prototype.split(sep)\<close> for a separator of one code unit: the result is
  never empty, and the empty string splits into one empty string.
\<close>

fun js_split :: "16 word \<Rightarrow> jsstring \<Rightarrow> jsstring list" where
  "js_split sep [] = [[]]"
| "js_split sep (c # cs) =
     (if c = sep then [] # js_split sep cs
      else (case js_split sep cs of
              [] \<Rightarrow> [[c]]
            | l # ls \<Rightarrow> (c # l) # ls))"

text \<open>
  \<open>String.prototype.trim\<close> strips WhiteSpace and LineTerminator code points from
  both ends: TAB, VT, FF, SP, NBSP, ZWNBSP, the other space separators (category Zs),
  LF, CR, LS and PS.
\<close>

definition isWhiteSpace :: "16 word \<Rightarrow> bool" where
  "isWhiteSpace c =
     (c = 0x09 \<or> c = 0x0A \<or> c = 0x0B \<or> c = 0x0C \<or> c = 0x0D \<or> c = 0x20 \<or>
      c = 0xA0 \<or> c = 0x1680 \<or> (0x2000 \<le> c \<and> c \<le> 0x200A) \<or>
      c = 0x2028 \<or> c = 0x2029 \<or> c = 0x202F \<or> c = 0x205F \<or> c = 0x3000 \<or>
      c = 0xFEFF)"

definition js_trim :: "jsstring \<Rightarrow> jsstring" where
  "js_trim s = rev (dropWhile isWhiteSpace (rev (dropWhile isWhiteSpace s)))"

text \<open>\<open>Array.prototype.join(sep)\<close>.\<close>

fun js_join :: "jsstring \<Rightarrow> jsstring list \<Rightarrow> jsstring" where
  "js_join sep [] = []"
| "js_join sep [x] = x"
| "js_join sep (x # y # ys) = x @ sep @ js_join sep (y # ys)"

text \<open>
  \<open>Array.prototype.slice(start, end)\<close>: a negative index counts from the end of the
  array, and both are clamped to \<open>[0, length]\<close>; \<open>slice(start)\<close> runs to the end.
\<close>

definition js_slice :: "'a list \<Rightarrow> int \<Rightarrow> int \<Rightarrow> 'a list" where
  "js_slice xs a b =
     (let len = int (length xs);
          k = (if a < 0 then max (len + a) 0 else min a len);
          final = (if b < 0 then max (len + b) 0 else min b len)
      in take (nat (final - k)) (drop (nat k) xs))"

definition js_slice_from :: "'a list \<Rightarrow> int \<Rightarrow> 'a list" where
  "js_slice_from xs a = js_slice xs a (int (length xs))"

text \<open>
  The decimal digits of an integer, as a template literal \<open>`${n}`\<close> prints it.
\<close>

function showNat :: "nat \<Rightarrow> jsstring" where
  "showNat n =
     (if n < 10 then [of_nat (48 + n)]
      else showNat (n div 10) @ [of_nat (48 + n mod 10)])"
  by pat_completeness auto
termination
  by (relation "measure id") auto

definition showInt :: "int \<Rightarrow> jsstring" where
  "showInt n = (if n < 0 then lit ''-'' @ showNat (nat (- n)) else showNat (nat n))"

section \<open>The data model\<close>

record Location =
  line :: int
  character :: int

record Range =
  start :: Location
  end' :: Location

datatype Severity = Error | Warning | Information

record PyrightDiagnostic =
  file' :: jsstring
  severity :: Severity
  message :: jsstring
  range' :: "Range option"
  rule :: jsstring

record PyrightSummary =
  filesAnalyzed :: int
  errorCount :: int
  warningCount :: int
  informationCount :: int
  timeInSec :: real

text \<open>
  \<open>PyrightOutput\<close>: the checker's report. The element type of \<open>generalDiagnostics\<close>
  is a parameter: plain diagnostics as parsed, \<open>PyrightError\<close> objects as resolved.
\<close>

record 'd PyrightOutput =
  version :: jsstring
  time :: jsstring
  generalDiagnostics :: "'d list"
  summary :: PyrightSummary

text \<open>
  \<open>class PyrightError extends Error implements PyrightDiagnostic\<close>: the fields of the
  diagnostic copied by the constructor, the diagnostic itself and its context lines.
\<close>

record PyrightError = PyrightDiagnostic +
  name :: jsstring
  diagnostic :: PyrightDiagnostic
  context' :: "jsstring list"

definition new_PyrightError :: "PyrightDiagnostic \<Rightarrow> jsstring list \<Rightarrow> PyrightError" where
  "new_PyrightError d ctx =
     \<lparr>file' = file' d, severity = severity d, message = message d, range' = range' d,
      rule = rule d, name = lit ''PyrightError'', diagnostic = d, context' = ctx\<rparr>"

section \<open>Colours\<close>

text \<open>
  The colour functions come from the package \<open>kleur\<close>, which is not part of the
  repository: they are a parameter of the formatter. With colours disabled
  \<open>kleur\<close> returns its argument unchanged, which is \<open>plain\<close>.
\<close>

record kleur =
  red :: "jsstring \<Rightarrow> jsstring"
  blue :: "jsstring \<Rightarrow> jsstring"
  yellow :: "jsstring \<Rightarrow> jsstring"
  green :: "jsstring \<Rightarrow> jsstring"
  dim :: "jsstring \<Rightarrow> jsstring"

definition plain :: kleur where
  "plain = \<lparr>red = (\<lambda>s. s), blue = (\<lambda>s. s), yellow = (\<lambda>s. s), green = (\<lambda>s. s),
            dim = (\<lambda>s. s)\<rparr>"

definition dimRed :: "kleur \<Rightarrow> jsstring \<Rightarrow> jsstring" where
  "dimRed K s = dim K (red K s)"

section \<open>The formatter\<close>

definition helpLine :: "kleur \<Rightarrow> jsstring \<Rightarrow> (jsstring \<Rightarrow> jsstring) \<Rightarrow> jsstring" where
  "helpLine K msg color = lit '' '' @ dim K (lit ''help ~'') @ lit '' '' @ color msg"

definition pushHelp ::
  "kleur \<Rightarrow> jsstring list \<Rightarrow> jsstring \<Rightarrow> (jsstring \<Rightarrow> jsstring) \<Rightarrow> jsstring list" where
  "pushHelp K output msg color = output @ [helpLine K msg color]"

definition errorLine :: "kleur \<Rightarrow> jsstring \<Rightarrow> jsstring" where
  "errorLine K msg = lit ''     '' @ red K (lit ''^ '') @ lit '' '' @ dimRed K msg"

definition pushError :: "kleur \<Rightarrow> jsstring list \<Rightarrow> jsstring \<Rightarrow> jsstring list" where
  "pushError K output msg = output @ [errorLine K msg]"

definition buildIndicator :: "kleur \<Rightarrow> int \<Rightarrow> int \<Rightarrow> jsstring \<Rightarrow> js_error + jsstring" where
  "buildIndicator K start_col len msg =
     (case js_repeat [SPACE] start_col of
        Inl err \<Rightarrow> Inl err
      | Inr padding \<Rightarrow>
          (case js_repeat [CARET] len of
             Inl err \<Rightarrow> Inl err
           | Inr carets \<Rightarrow>
               Inr (padding @ red K carets @
                    (if msg \<noteq> [] then lit '' '' @ dimRed K msg else []))))"

definition fileLine :: "kleur \<Rightarrow> 'a PyrightDiagnostic_scheme \<Rightarrow> jsstring" where
  "fileLine K d =
     (let formatted =
            (case range' d of
               Some r \<Rightarrow>
                 (let startLine = line (start r) + 1;
                      startChar = character (start r) + 1
                  in blue K (file' d @ lit '':'' @ showInt startLine @ lit '':'' @
                             showInt startChar))
             | None \<Rightarrow> blue K (file' d));
          formattedRule =
            (if rule d \<noteq> [] then lit '' '' @ [ARROW] @ lit '' '' @ dimRed K (rule d)
             else []);
          formattedSeverity =
            (case severity d of
               Error \<Rightarrow> red K (lit ''error'')
             | Warning \<Rightarrow> yellow K (lit ''warning'')
             | Information \<Rightarrow> green K (lit ''information''))
      in formattedSeverity @ lit '' '' @ formatted @ formattedRule)"

definition pushFile ::
  "kleur \<Rightarrow> jsstring list \<Rightarrow> 'a PyrightDiagnostic_scheme \<Rightarrow> jsstring list" where
  "pushFile K output d = output @ [fileLine K d]"

definition pushLine :: "jsstring list \<Rightarrow> jsstring \<Rightarrow> jsstring list" where
  "pushLine output l = output @ [l]"

definition numberedLine :: "kleur \<Rightarrow> jsstring \<Rightarrow> int \<Rightarrow> bool \<Rightarrow> jsstring" where
  "numberedLine K l lineNum indicated =
     (if indicated then lit ''>'' else lit '' '') @
     dim K (js_padStart (showInt (lineNum + 1)) 4) @ lit '' '' @ [BAR] @ lit '' '' @ l"

definition pushNumberedLine ::
  "kleur \<Rightarrow> jsstring list \<Rightarrow> jsstring \<Rightarrow> int \<Rightarrow> bool \<Rightarrow> jsstring list" where
  "pushNumberedLine K output l lineNum indicated =
     output @ [numberedLine K l lineNum indicated]"

text \<open>\<open>pushContext\<close> takes one string or an array of strings.\<close>

datatype context_arg = Str jsstring | Arr "jsstring list"

definition contextLine :: "(jsstring \<Rightarrow> jsstring) \<Rightarrow> jsstring \<Rightarrow> jsstring" where
  "contextLine color s = lit ''      '' @ [BAR] @ lit '' '' @ color s"

fun pushContext ::
  "jsstring list \<Rightarrow> context_arg \<Rightarrow> (jsstring \<Rightarrow> jsstring) \<Rightarrow> jsstring list" where
  "pushContext output (Str s) color = output @ [contextLine color s]"
| "pushContext output (Arr ls) color = output @ map (contextLine color) ls"

text \<open>
  The body of the \<open>forEach\<close> callback of \<open>formatError\<close>, in two parts: the
  highlighted text of a context line, and the lines pushed for it. An exception thrown
  by \<open>buildIndicator\<close> leaves the callback (and \<open>formatError\<close>) at once.
\<close>

definition isWithinErrorLineRange :: "Range \<Rightarrow> int \<Rightarrow> bool" where
  "isWithinErrorLineRange r lineNum =
     (lineNum \<ge> line (start r) \<and> lineNum \<le> line (end' r))"

definition formattedLine :: "kleur \<Rightarrow> Range \<Rightarrow> int \<Rightarrow> jsstring \<Rightarrow> jsstring" where
  "formattedLine K r lineNum l =
     (if isWithinErrorLineRange r lineNum then
        (let startChar = (if lineNum = line (start r) then character (start r) else 0);
             endChar = (if lineNum = line (end' r) then character (end' r)
                        else int (length l));
             before = js_substring l 0 startChar;
             highlighted = red K (js_substring l startChar endChar);
             after = js_substring_from l endChar
         in before @ highlighted @ after)
      else l)"

definition contextCallback ::
  "kleur \<Rightarrow> PyrightError \<Rightarrow> Range \<Rightarrow> int \<Rightarrow> jsstring list \<Rightarrow> jsstring \<Rightarrow> nat \<Rightarrow>
   js_error + jsstring list" where
  "contextCallback K e r startLine output l i =
     (let lineNum = startLine + int i;
          isErrorStartLine = (lineNum = line (start r));
          output1 = pushNumberedLine K output (formattedLine K r lineNum l) lineNum
                      (isWithinErrorLineRange r lineNum);
          isSingleLineError = (line (start r) = line (end' r))
      in case (if isErrorStartLine \<and> isSingleLineError then
                 (let rangeLength = max 1 (character (end' r) - character (start r))
                  in case buildIndicator K (character (start r)) rangeLength (rule e) of
                       Inl err \<Rightarrow> Inl err
                     | Inr ind \<Rightarrow> Inr (pushContext output1 (Str ind) (\<lambda>s. s)))
               else Inr output1) of
           Inl err \<Rightarrow> Inl err
         | Inr output2 \<Rightarrow>
             (if lineNum = line (end' r) \<and> \<not> isSingleLineError then
                (case buildIndicator K (character (end' r) - 1) 1 (rule e) of
                   Inl err \<Rightarrow> Inl err
                 | Inr ind \<Rightarrow> Inr (pushContext output2 (Str ind) (\<lambda>s. s)))
              else Inr output2))"

text \<open>\<open>Array.prototype.forEach\<close> with a callback that pushes to \<open>output\<close> or throws.\<close>

fun forEach ::
  "(jsstring list \<Rightarrow> jsstring \<Rightarrow> nat \<Rightarrow> js_error + jsstring list) \<Rightarrow>
   jsstring list \<Rightarrow> nat \<Rightarrow> jsstring list \<Rightarrow> js_error + jsstring list" where
  "forEach f [] i output = Inr output"
| "forEach f (l # ls) i output =
     (case f output l i of
        Inl err \<Rightarrow> Inl err
      | Inr output' \<Rightarrow> forEach f ls (Suc i) output')"

text \<open>
  \<open>PyrightError.formatError\<close>: \<open>formatError_output\<close> is the array \<open>output\<close> at the
  \<open>return\<close>, \<open>formatError\<close> its lines joined by newlines. The parameter
  \<open>contextLines\<close> is explicit; a call without it passes 2. \<open>split\<close> never returns
  an empty array (lemma \<open>js_split_nonempty\<close>), so \<open>errorLines[0]\<close> is a string.
\<close>

definition formatError_output ::
  "kleur \<Rightarrow> PyrightError \<Rightarrow> int \<Rightarrow> js_error + jsstring list" where
  "formatError_output K e contextLines =
     (case range' e of
        None \<Rightarrow>
          (let output = pushFile K [] e
           in if rule e = lit ''reportImportCycles'' then
                (let errorLines = js_split NEWLINE (message e);
                     helpMsg = hd errorLines;
                     cycleImports = js_slice_from errorLines 1;
                     output1 = foldl (\<lambda>out cycleImport.
                                  out @ [lit ''>     '' @ [BAR] @ lit ''     '' @
                                         js_trim cycleImport])
                                output cycleImports
                 in Inr (pushHelp K output1 helpMsg (dim K)))
              else
                (let output1 = pushError K output (message e);
                     output2 = pushHelp K output1 (rule e) (dim K)
                 in Inr (pushLine output2
                           (lit ''---> '' @ rule e @ lit '' needs custom handling''))))
      | Some r \<Rightarrow>
          (let output = pushFile K [] e
           in if length (context' e) \<noteq> 0 then
                (let startLine = max 0 (line (start r) - contextLines)
                 in case forEach (contextCallback K e r startLine) (context' e) 0 output of
                      Inl err \<Rightarrow> Inl err
                    | Inr output1 \<Rightarrow> Inr (pushHelp K output1 (message e) (red K)))
              else Inr output))"

definition formatError :: "kleur \<Rightarrow> PyrightError \<Rightarrow> int \<Rightarrow> js_error + jsstring" where
  "formatError K e contextLines =
     (case formatError_output K e contextLines of
        Inl err \<Rightarrow> Inl err
      | Inr output \<Rightarrow> Inr (js_join [NEWLINE] output))"

section \<open>The context loader\<close>

text \<open>
  The file system is a parameter: \<open>files\<close> gives, for a path, the text that
  \<open>readFile(path, "utf-8")\<close> resolves to, or the error it rejects with. Every call of
  \<open>readFile\<close> is recorded in \<open>reads\<close>, so that "no file is read" can be stated. The files
  do not change while one report is produced.
\<close>

datatype fs_error = ENOENT | EACCES | EISDIR | EIO

record world =
  files :: "jsstring \<Rightarrow> fs_error + jsstring"
  reads :: "jsstring list"

definition readFile :: "jsstring \<Rightarrow> world \<Rightarrow> (fs_error + jsstring) \<times> world" where
  "readFile path w = (files w path, w\<lparr>reads := reads w @ [path]\<rparr>)"

text \<open>
  \<open>Pyright.getContext\<close>: \<open>getContext_try\<close> is the body of the \<open>try\<close> block, whose
  only exception is a rejected read; \<open>getContext\<close> adds the \<open>catch\<close>.
\<close>

definition getContext_try ::
  "PyrightDiagnostic \<Rightarrow> int \<Rightarrow> world \<Rightarrow> (fs_error + jsstring list) \<times> world" where
  "getContext_try d contextLines w =
     (case range' d of
        None \<Rightarrow> (Inr [], w)
      | Some r \<Rightarrow>
          (case readFile (file' d) w of
             (Inl err, w') \<Rightarrow> (Inl err, w')
           | (Inr content, w') \<Rightarrow>
               (let lines = js_split NEWLINE content;
                    startLine = max 0 (line (start r) - contextLines);
                    endLine = min (int (length lines)) (line (end' r) + contextLines + 1)
                in (Inr (js_slice lines startLine endLine), w'))))"

definition getContext :: "PyrightDiagnostic \<Rightarrow> int \<Rightarrow> world \<Rightarrow> jsstring list \<times> world" where
  "getContext d contextLines w =
     (case getContext_try d contextLines w of
        (Inl err, w') \<Rightarrow> ([], w')
      | (Inr ls, w') \<Rightarrow> (ls, w'))"

section \<open>Running the checker\<close>

text \<open>
  The checker process and \<open>JSON.parse\<close> are parameters. \<open>spawn\<close> gives what the
  \<open>close\<close> handler sees: the exit code (\<open>None\<close> for \<open>null\<close>, a process ended by a
  signal) and the text collected from both streams. \<open>json_parse\<close> is \<open>JSON.parse\<close> on
  the text of a report of the declared type \<open>PyrightOutput\<close>, and \<open>None\<close> where
  \<open>JSON.parse\<close> throws.
\<close>

record proc_result =
  code :: "int option"
  stdout :: jsstring
  stderr :: jsstring

record env =
  spawn :: "jsstring \<Rightarrow> jsstring list \<Rightarrow> proc_result"
  json_parse :: "jsstring \<Rightarrow> PyrightDiagnostic PyrightOutput option"

datatype files_arg = OneFile jsstring | FileList "jsstring list"

datatype 'a promise = Resolved 'a | Rejected jsstring

text \<open>
  \<open>Promise.all(output.generalDiagnostics.map(async (diagnostic) => ...))\<close>: the
  callbacks start in list order, each calls \<open>getContext\<close> with the default of two
  context lines, and the results come back in list order.
\<close>

fun withContext :: "PyrightDiagnostic list \<Rightarrow> world \<Rightarrow> PyrightError list \<times> world" where
  "withContext [] w = ([], w)"
| "withContext (d # ds) w =
     (case getContext d 2 w of
        (ctx, w1) \<Rightarrow>
          (case withContext ds w1 of
             (es, w2) \<Rightarrow> (new_PyrightError d ctx # es, w2)))"

definition check ::
  "env \<Rightarrow> files_arg \<Rightarrow> jsstring list \<Rightarrow> world \<Rightarrow>
   PyrightError PyrightOutput promise \<times> world" where
  "check E fs options w =
     (let fileList = (case fs of OneFile f \<Rightarrow> [f] | FileList l \<Rightarrow> l);
          args = [lit ''--outputjson''] @ options @ fileList;
          pyright = spawn E (lit ''pyright'') args
      in if code pyright = Some 0 then
           (Resolved
              \<lparr>version = [], time = [], generalDiagnostics = [],
               summary = \<lparr>filesAnalyzed = int (length fileList), errorCount = 0,
                          warningCount = 0, informationCount = 0, timeInSec = 0\<rparr>\<rparr>,
            w)
         else
           (case json_parse E (stdout pyright) of
              None \<Rightarrow>
                (Rejected (lit ''Failed to parse pyright output: '' @
                           (if stderr pyright \<noteq> [] then stderr pyright
                            else stdout pyright)),
                 w)
            | Some output \<Rightarrow>
                (case withContext (generalDiagnostics output) w of
                   (diagnosticsWithContext, w') \<Rightarrow>
                     (Resolved
                        \<lparr>version = version output, time = time output,
                         generalDiagnostics = diagnosticsWithContext,
                         summary = summary output\<rparr>,
                      w'))))"

section \<open>The context block, line by line\<close>

text \<open>
  Names for what \<open>formatError\<close> pushes for one context line when no indicator follows
  it: the numbered line of the line with number \<open>lineNum\<close>, and the numbered lines of a
  run of context lines whose first has index \<open>i0\<close>.
\<close>

definition contextNumbered :: "kleur \<Rightarrow> Range \<Rightarrow> int \<Rightarrow> jsstring \<Rightarrow> jsstring" where
  "contextNumbered K r lineNum l =
     numberedLine K (formattedLine K r lineNum l) lineNum (isWithinErrorLineRange r lineNum)"

definition numberedLines ::
  "kleur \<Rightarrow> Range \<Rightarrow> int \<Rightarrow> nat \<Rightarrow> jsstring list \<Rightarrow> jsstring list" where
  "numberedLines K r startLine i0 ls =
     map (\<lambda>(i, l). contextNumbered K r (startLine + int i) l) (enumerate i0 ls)"

section \<open>Example inputs\<close>

definition ex_no_context :: PyrightError where
  "ex_no_context = new_PyrightError
     \<lparr>file' = lit ''pkg/mod.py'', severity = Warning, message = lit ''unused'',
      range' = Some \<lparr>start = \<lparr>line = 41, character = 8\<rparr>,
                     end' = \<lparr>line = 41, character = 12\<rparr>\<rparr>,
      rule = lit ''reportUnusedVariable''\<rparr> []"



definition ex_end_column_zero :: PyrightError where
  "ex_end_column_zero = new_PyrightError
     \<lparr>file' = lit ''a.py'', severity = Error, message = lit ''unclosed bracket'',
      range' = Some \<lparr>start = \<lparr>line = 0, character = 4\<rparr>,
                     end' = \<lparr>line = 1, character = 0\<rparr>\<rparr>,
      rule = lit ''reportGeneralTypeIssues''\<rparr> [lit ''x = ['', lit '''']"




text \<open>
  Two source files: one of five lines, and one whose two lines are separated by a
  carriage return alone, which the checker counts as a line break and
  \<open>split("\n")\<close> does not.
\<close>

definition file_five_lines :: jsstring where
  "file_five_lines =
     lit ''import os'' @ [NEWLINE] @ lit '''' @ [NEWLINE] @ lit ''x: int = os'' @
     [NEWLINE] @ lit ''y = 2'' @ [NEWLINE] @ lit ''''"

definition file_cr_endings :: jsstring where
  "file_cr_endings = lit ''a = 1'' @ [0x0D] @ lit ''b = x''"

definition diag_line_two :: PyrightDiagnostic where
  "diag_line_two =
     \<lparr>file' = lit ''five.py'', severity = Error, message = lit ''m'',
      range' = Some \<lparr>start = \<lparr>line = 2, character = 9\<rparr>,
                     end' = \<lparr>line = 2, character = 11\<rparr>\<rparr>,
      rule = lit ''reportAssignmentType''\<rparr>"

definition diag_cr_line_one :: PyrightDiagnostic where
  "diag_cr_line_one =
     \<lparr>file' = lit ''mac.py'', severity = Error, message = lit ''x is not defined'',
      range' = Some \<lparr>start = \<lparr>line = 1, character = 4\<rparr>,
                     end' = \<lparr>line = 1, character = 5\<rparr>\<rparr>,
      rule = lit ''reportUndefinedVariable''\<rparr>"

definition diag_missing_file :: PyrightDiagnostic where
  "diag_missing_file =
     \<lparr>file' = lit ''gone.py'', severity = Error, message = lit ''m'',
      range' = Some \<lparr>start = \<lparr>line = 3, character = 0\<rparr>,
                     end' = \<lparr>line = 3, character = 2\<rparr>\<rparr>,
      rule = lit ''r''\<rparr>"

definition diag_file_level :: PyrightDiagnostic where
  "diag_file_level =
     \<lparr>file' = lit ''five.py'', severity = Error, message = lit ''m'',
      range' = None, rule = lit ''r''\<rparr>"

definition world_sources :: world where
  "world_sources =
     \<lparr>files = (\<lambda>p. if p = lit ''five.py'' then Inr file_five_lines
                    else if p = lit ''mac.py'' then Inr file_cr_endings
                    else Inl ENOENT),
      reads = []\<rparr>"


definition lines_twenty :: "jsstring list" where
  "lines_twenty =
     [lit ''l0'', lit ''l1'', lit ''l2'', lit ''l3'', lit ''l4'', lit ''l5'', lit ''l6'',
      lit ''l7'', lit ''l8'', lit ''l9'', lit ''l10'', lit ''l11'', lit ''l12'', lit ''l13'',
      lit ''l14'', lit ''l15'', lit ''l16'', lit ''l17'', lit ''l18'', lit ''l19'']"

definition diag_line_ten :: PyrightDiagnostic where
  "diag_line_ten =
     \<lparr>file' = lit ''twenty.py'', severity = Error, message = lit ''m'',
      range' = Some \<lparr>start = \<lparr>line = 10, character = 0\<rparr>,
                     end' = \<lparr>line = 10, character = 3\<rparr>\<rparr>,
      rule = lit ''r''\<rparr>"

definition world_twenty :: world where
  "world_twenty =
     \<lparr>files = (\<lambda>p. if p = lit ''twenty.py'' then Inr (js_join [NEWLINE] lines_twenty)
                    else Inl ENOENT),
      reads = []\<rparr>"

definition report_two :: "PyrightDiagnostic PyrightOutput" where
  "report_two =
     \<lparr>version = lit ''1.1.300'', time = lit ''1700000000'',
      generalDiagnostics = [diag_line_two, diag_missing_file],
      summary = \<lparr>filesAnalyzed = 2, errorCount = 2, warningCount = 0,
                 informationCount = 0, timeInSec = 1.5\<rparr>\<rparr>"

definition env_exit_zero :: env where
  "env_exit_zero =
     \<lparr>spawn = (\<lambda>cmd args. \<lparr>code = Some 0, stdout = lit ''{not json'', stderr = []\<rparr>),
      json_parse = (\<lambda>s. None)\<rparr>"

text \<open>
  A checker run that exits with status 1 and writes the JSON text of \<open>report_two\<close>;
  the parser reads that text and rejects every other.
\<close>

definition json_report_two :: jsstring where
  \<open>json_report_two =
     lit ''{"version":"1.1.300","time":"1700000000","generalDiagnostics":['' @
     lit ''{"file":"five.py","severity":"error","message":"m",'' @
     lit ''"range":{"start":{"line":2,"character":9},"end":{"line":2,"character":11}},'' @
     lit ''"rule":"reportAssignmentType"},'' @
     lit ''{"file":"gone.py","severity":"error","message":"m",'' @
     lit ''"range":{"start":{"line":3,"character":0},"end":{"line":3,"character":2}},'' @
     lit ''"rule":"r"}],'' @
     lit ''"summary":{"filesAnalyzed":2,"errorCount":2,"warningCount":0,'' @
     lit ''"informationCount":0,"timeInSec":1.5}}''\<close>

definition env_exit_one :: env where
  "env_exit_one =
     \<lparr>spawn = (\<lambda>cmd args. \<lparr>code = Some 1, stdout = json_report_two, stderr = []\<rparr>),
      json_parse = (\<lambda>s. if s = json_report_two then Some report_two else None)\<rparr>"

section \<open>Auxiliary lemmas\<close>

subsection \<open>Strings and arrays\<close>


lemma js_slice_upt:
  assumes "0 \<le> a" and "0 \<le> b" and "b \<le> int (length xs)"
  shows "js_slice xs a b = map ((!) xs) [nat a ..< nat b]"
proof -
  have "take (nat (b - min a (int (length xs)))) (drop (nat (min a (int (length xs)))) xs)
        = map ((!) xs) [nat a ..< nat b]"
  proof (cases "a \<le> b")
    case True
    then have m: "min a (int (length xs)) = a" using assms by simp
    have "take (nat (b - a)) (drop (nat a) xs) = map ((!) xs) [nat a ..< nat b]"
      using assms True
      by (auto simp: list_eq_iff_nth_eq nat_diff_distrib)
    then show ?thesis by (simp add: m)
  next
    case False
    then show ?thesis using assms by auto
  qed
  then show ?thesis using assms by (simp add: js_slice_def Let_def)
qed



subsection \<open>The context loader\<close>

lemma getContext_readable:
  assumes "range' d = Some r" and "files w (file' d) = Inr content"
  shows "fst (getContext d contextLines w) =
           js_slice (js_split NEWLINE content)
             (max 0 (line (start r) - contextLines))
             (min (int (length (js_split NEWLINE content)))
                (line (end' r) + contextLines + 1))"
  using assms by (simp add: getContext_def getContext_try_def readFile_def Let_def)

lemma getContext_upt:
  assumes "range' d = Some r" and "files w (file' d) = Inr content"
    and "0 \<le> line (end' r)" and "0 \<le> contextLines"
  shows "fst (getContext d contextLines w) =
           map ((!) (js_split NEWLINE content))
             [nat (max 0 (line (start r) - contextLines)) ..<
              nat (min (int (length (js_split NEWLINE content)))
                     (line (end' r) + contextLines + 1))]"
proof -
  have "js_slice (js_split NEWLINE content)
          (max 0 (line (start r) - contextLines))
          (min (int (length (js_split NEWLINE content))) (line (end' r) + contextLines + 1)) =
        map ((!) (js_split NEWLINE content))
          [nat (max 0 (line (start r) - contextLines)) ..<
           nat (min (int (length (js_split NEWLINE content)))
                  (line (end' r) + contextLines + 1))]"
    using assms(3,4) by (intro js_slice_upt) auto
  then show ?thesis
    by (simp add: getContext_readable [OF assms(1,2)])
qed

text \<open>Reading a file changes nothing but the log of reads.\<close>

lemma getContext_reads:
  "getContext d n (w\<lparr>reads := rs\<rparr>) =
     (fst (getContext d n w),
      w\<lparr>reads := rs @ (if range' d = None then [] else [file' d])\<rparr>)"
  by (auto simp: getContext_def getContext_try_def readFile_def Let_def
      split: option.splits sum.splits)

lemma withContext_reads:
  "withContext ds (w\<lparr>reads := rs\<rparr>) =
     (map (\<lambda>d. new_PyrightError d (fst (getContext d 2 w))) ds,
      w\<lparr>reads := rs @ concat (map (\<lambda>d. if range' d = None then [] else [file' d]) ds)\<rparr>)"
proof (induction ds arbitrary: rs)
  case Nil
  show ?case by simp
next
  case (Cons d ds)
  show ?case
    by (simp add: getContext_reads Cons.IH)
qed

lemma withContext_map:
  "withContext ds w =
     (map (\<lambda>d. new_PyrightError d (fst (getContext d 2 w))) ds,
      w\<lparr>reads := reads w @
                  concat (map (\<lambda>d. if range' d = None then [] else [file' d]) ds)\<rparr>)"
  using withContext_reads [where ds = ds and w = w and rs = "reads w"] by simp

lemma split_five:
  "js_split NEWLINE file_five_lines =
     [lit ''import os'', lit '''', lit ''x: int = os'', lit ''y = 2'', lit '''']"
  by (simp add: file_five_lines_def lit_def NEWLINE_def)

lemma split_twenty: "js_split NEWLINE (js_join [NEWLINE] lines_twenty) = lines_twenty"
  by (simp add: lines_twenty_def lit_def NEWLINE_def)

subsection \<open>The callback of the context loop\<close>

lemma numberedLines_Nil: "numberedLines K r startLine i [] = []"
  by (simp add: numberedLines_def)

lemma numberedLines_Cons:
  "numberedLines K r startLine i (l # ls) =
     contextNumbered K r (startLine + int i) l # numberedLines K r startLine (Suc i) ls"
  by (simp add: numberedLines_def)

lemma buildIndicator_ok:
  assumes "0 \<le> col" and "0 \<le> len"
  shows "buildIndicator K col len msg =
           Inr (replicate (nat col) SPACE @ red K (replicate (nat len) CARET) @
                (if msg = [] then [] else lit '' '' @ dim K (red K msg)))"
  using assms by (simp add: buildIndicator_def js_repeat_def dimRed_def)

lemma buildIndicator_negative_column:
  assumes "col < 0"
  shows "buildIndicator K col len msg = Inl RangeError"
  using assms by (simp add: buildIndicator_def js_repeat_def)

text \<open>
  In both kinds of range the callback pushes an indicator only for the line whose
  number is \<open>end.line\<close> (which is \<open>start.line\<close> in a single-line range).
\<close>

lemma contextCallback_plain:
  assumes "startLine + int i \<noteq> line (end' r)"
  shows "contextCallback K e r startLine out l i =
           Inr (out @ [contextNumbered K r (startLine + int i) l])"
proof (cases "line (start r) = line (end' r)")
  case True
  then have "startLine + int i \<noteq> line (start r)" using assms by simp
  then show ?thesis
    unfolding contextCallback_def Let_def pushNumberedLine_def contextNumbered_def
    using True by simp
next
  case False
  then show ?thesis
    unfolding contextCallback_def Let_def pushNumberedLine_def contextNumbered_def
    using assms by simp
qed

lemma contextCallback_single:
  assumes "line (start r) = line (end' r)"
    and "startLine + int i = line (start r)"
    and "0 \<le> character (start r)"
  shows "contextCallback K e r startLine out l i =
           Inr (out @ [contextNumbered K r (line (start r)) l,
                       contextLine (\<lambda>s. s)
                         (replicate (nat (character (start r))) SPACE @
                          red K (replicate
                                   (nat (max 1 (character (end' r) - character (start r))))
                                   CARET) @
                          (if rule e = [] then [] else lit '' '' @ dim K (red K (rule e))))])"
proof -
  have "buildIndicator K (character (start r))
          (max 1 (character (end' r) - character (start r))) (rule e) =
        Inr (replicate (nat (character (start r))) SPACE @
             red K (replicate (nat (max 1 (character (end' r) - character (start r)))) CARET) @
             (if rule e = [] then [] else lit '' '' @ dim K (red K (rule e))))"
    using assms(3) by (intro buildIndicator_ok) auto
  then show ?thesis
    unfolding contextCallback_def Let_def assms(2)
    using assms(1) by (simp add: pushNumberedLine_def contextNumbered_def)
qed

lemma contextCallback_multi:
  assumes "line (start r) \<noteq> line (end' r)"
    and "startLine + int i = line (end' r)"
    and "1 \<le> character (end' r)"
  shows "contextCallback K e r startLine out l i =
           Inr (out @ [contextNumbered K r (line (end' r)) l,
                       contextLine (\<lambda>s. s)
                         (replicate (nat (character (end' r) - 1)) SPACE @
                          red K [CARET] @
                          (if rule e = [] then [] else lit '' '' @ dim K (red K (rule e))))])"
proof -
  have "buildIndicator K (character (end' r) - 1) 1 (rule e) =
        Inr (replicate (nat (character (end' r) - 1)) SPACE @
             red K (replicate (nat 1) CARET) @
             (if rule e = [] then [] else lit '' '' @ dim K (red K (rule e))))"
    using assms(3) by (intro buildIndicator_ok) auto
  then show ?thesis
    unfolding contextCallback_def Let_def assms(2)
    using assms(1) by (simp add: pushNumberedLine_def contextNumbered_def)
qed

lemma contextCallback_multi_throws:
  assumes "line (start r) \<noteq> line (end' r)"
    and "startLine + int i = line (end' r)"
    and "character (end' r) \<le> 0"
  shows "contextCallback K e r startLine out l i = Inl RangeError"
proof -
  have "buildIndicator K (character (end' r) - 1) 1 (rule e) = Inl RangeError"
    using assms(3) by (intro buildIndicator_negative_column) auto
  then show ?thesis
    unfolding contextCallback_def Let_def assms(2)
    using assms(1) by (simp add: pushNumberedLine_def)
qed

subsection \<open>The context loop\<close>

lemma forEach_append:
  "forEach f (xs @ ys) i out =
     (case forEach f xs i out of
        Inl err \<Rightarrow> Inl err
      | Inr out' \<Rightarrow> forEach f ys (i + length xs) out')"
  by (induction xs arbitrary: i out) (auto split: sum.splits)

lemma forEach_plain:
  assumes "\<And>j. j < length ls \<Longrightarrow> startLine + int (i + j) \<noteq> line (end' r)"
  shows "forEach (contextCallback K e r startLine) ls i out =
           Inr (out @ numberedLines K r startLine i ls)"
  using assms
proof (induction ls arbitrary: i out)
  case Nil
  show ?case by (simp add: numberedLines_Nil)
next
  case (Cons l ls)
  have "startLine + int (i + 0) \<noteq> line (end' r)"
    by (rule Cons.prems) simp
  then have "startLine + int i \<noteq> line (end' r)" by simp
  then have head: "contextCallback K e r startLine out l i =
                Inr (out @ [contextNumbered K r (startLine + int i) l])"
    by (rule contextCallback_plain)
  have tail: "forEach (contextCallback K e r startLine) ls (Suc i) out' =
                Inr (out' @ numberedLines K r startLine (Suc i) ls)" for out'
  proof (rule Cons.IH)
    fix j assume "j < length ls"
    then have "Suc j < length (l # ls)" by simp
    then have "startLine + int (i + Suc j) \<noteq> line (end' r)" by (rule Cons.prems)
    moreover have "i + Suc j = Suc i + j" by simp
    ultimately show "startLine + int (Suc i + j) \<noteq> line (end' r)" by metis
  qed
  have "forEach (contextCallback K e r startLine) (l # ls) i out =
          forEach (contextCallback K e r startLine) ls (Suc i)
            (out @ [contextNumbered K r (startLine + int i) l])"
    by (simp add: head)
  also have "\<dots> = Inr ((out @ [contextNumbered K r (startLine + int i) l]) @
                       numberedLines K r startLine (Suc i) ls)"
    by (rule tail)
  also have "\<dots> = Inr (out @ numberedLines K r startLine i (l # ls))"
    by (simp add: numberedLines_Cons)
  finally show ?case .
qed

text \<open>
  The loop over a context that holds the end line at index \<open>k\<close>: numbered lines
  before it, whatever the callback does at \<open>k\<close>, numbered lines after it.
\<close>

lemma forEach_split:
  assumes "k < length ctx" and "startLine + int k = line (end' r)"
  shows "forEach (contextCallback K e r startLine) ctx 0 out =
           (case contextCallback K e r startLine
                   (out @ numberedLines K r startLine 0 (take k ctx)) (ctx ! k) k of
              Inl err \<Rightarrow> Inl err
            | Inr out' \<Rightarrow>
                Inr (out' @ numberedLines K r startLine (Suc k) (drop (Suc k) ctx)))"
proof -
  let ?f = "contextCallback K e r startLine"
  have before: "forEach ?f (take k ctx) 0 out =
                  Inr (out @ numberedLines K r startLine 0 (take k ctx))"
  proof (rule forEach_plain)
    fix j assume "j < length (take k ctx)"
    then have "j < k" by simp
    then show "startLine + int (0 + j) \<noteq> line (end' r)"
      using assms(2) by linarith
  qed
  have after: "forEach ?f (drop (Suc k) ctx) (Suc k) out' =
                 Inr (out' @ numberedLines K r startLine (Suc k) (drop (Suc k) ctx))" for out'
  proof (rule forEach_plain)
    fix j
    show "startLine + int (Suc k + j) \<noteq> line (end' r)"
      using assms(2) by linarith
  qed
  have len: "0 + length (take k ctx) = k"
    using assms(1) by simp
  have "ctx = take k ctx @ (ctx ! k # drop (Suc k) ctx)"
    using assms(1) by (simp add: id_take_nth_drop [symmetric])
  then have "forEach ?f ctx 0 out = forEach ?f (take k ctx @ (ctx ! k # drop (Suc k) ctx)) 0 out"
    by simp
  also have "\<dots> = forEach ?f (ctx ! k # drop (Suc k) ctx) k
                      (out @ numberedLines K r startLine 0 (take k ctx))"
    unfolding forEach_append before len by simp
  also have "\<dots> = (case ?f (out @ numberedLines K r startLine 0 (take k ctx)) (ctx ! k) k of
                       Inl err \<Rightarrow> Inl err
                     | Inr out' \<Rightarrow>
                         Inr (out' @ numberedLines K r startLine (Suc k) (drop (Suc k) ctx)))"
    by (simp add: after split: sum.splits)
  finally show ?thesis .
qed

lemma forEach_returns:
  assumes "if line (start r) = line (end' r) then 0 \<le> character (start r)
           else 1 \<le> character (end' r)"
  shows "\<exists>out'. forEach (contextCallback K e r startLine) ctx 0 out = Inr out'"
proof (cases "startLine \<le> line (end' r) \<and> line (end' r) < startLine + int (length ctx)")
  case True
  let ?k = "nat (line (end' r) - startLine)"
  have k: "?k < length ctx" using True by linarith
  have at: "startLine + int ?k = line (end' r)" using True by linarith
  have "\<exists>ys. contextCallback K e r startLine out0 (ctx ! ?k) ?k = Inr ys" for out0
  proof (cases "line (start r) = line (end' r)")
    case single: True
    then have "0 \<le> character (start r)" using assms by simp
    moreover have "startLine + int ?k = line (start r)" using at single by simp
    ultimately show ?thesis
      using contextCallback_single [OF single, of startLine ?k K e out0 "ctx ! ?k"] by simp
  next
    case multi: False
    then have "1 \<le> character (end' r)" using assms by simp
    then show ?thesis
      using contextCallback_multi [OF multi at, of K e out0 "ctx ! ?k"] by simp
  qed
  then obtain ys where
    "contextCallback K e r startLine (out @ numberedLines K r startLine 0 (take ?k ctx))
       (ctx ! ?k) ?k = Inr ys"
    by blast
  then show ?thesis
    unfolding forEach_split [OF k at] by simp
next
  case False
  have "forEach (contextCallback K e r startLine) ctx 0 out =
          Inr (out @ numberedLines K r startLine 0 ctx)"
  proof (rule forEach_plain)
    fix j assume "j < length ctx"
    then show "startLine + int (0 + j) \<noteq> line (end' r)"
      using False by linarith
  qed
  then show ?thesis by simp
qed

section \<open>The formatter: claims\<close>

text \<open>
  Formatting returns whenever no indicator is asked for at a negative column: for a
  file-level diagnostic always, for a single-line range when \<open>start.character\<close> is
  not negative, for a multi-line range when \<open>end.character\<close> is at least 1.
\<close>

theorem formatError_returns:
  assumes "case range' e of
             None \<Rightarrow> True
           | Some r \<Rightarrow>
               (if line (start r) = line (end' r) then 0 \<le> character (start r)
                else 1 \<le> character (end' r))"
  shows "\<exists>s. formatError K e contextLines = Inr s"
proof (cases "range' e")
  case None
  then show ?thesis
    by (simp add: formatError_def formatError_output_def Let_def)
next
  case (Some r)
  then have ok: "if line (start r) = line (end' r) then 0 \<le> character (start r)
                 else 1 \<le> character (end' r)"
    using assms by simp
  obtain out' where
    "forEach (contextCallback K e r (max 0 (line (start r) - contextLines)))
       (context' e) 0 (pushFile K [] e) = Inr out'"
    using forEach_returns [OF ok] by blast
  then show ?thesis
    using Some by (simp add: formatError_def formatError_output_def Let_def)
qed

subsection \<open>C1: the indicator of a single-line range\<close>




subsection \<open>C2: formatting fails at a multi-line range that ends in column 0\<close>

text \<open>
  Claim C2 says that \<open>formatError\<close> never fails, in particular not for a multi-line
  range with \<open>end.character = 0\<close>. The code does fail there: for every diagnostic
  with a multi-line range that ends in column 0 and a context that holds the end
  line, \<open>buildIndicator\<close> is called with the column \<open>end.character - 1 = -1\<close>,
  \<open>" ".repeat(-1)\<close> throws a RangeError, and \<open>formatError\<close> returns no string.
\<close>

theorem formatError_multi_line_end_character_zero:
  assumes "range' e = Some r"
    and "line (start r) \<noteq> line (end' r)"
    and "character (end' r) = 0"
    and "max 0 (line (start r) - contextLines) \<le> line (end' r)"
    and "line (end' r) < max 0 (line (start r) - contextLines) + int (length (context' e))"
  shows "formatError_output K e contextLines = Inl RangeError
       \<and> formatError K e contextLines = Inl RangeError"
proof -
  let ?a = "max 0 (line (start r) - contextLines)"
  let ?k = "nat (line (end' r) - ?a)"
  let ?f = "contextCallback K e r ?a"
  have k: "?k < length (context' e)" using assms(4,5) by linarith
  have at: "?a + int ?k = line (end' r)" using assms(4) by linarith
  have nonempty: "length (context' e) \<noteq> 0" using k by linarith
  have le: "character (end' r) \<le> 0" using assms(3) by simp
  have cb: "?f out (context' e ! ?k) ?k = Inl RangeError" for out
    using assms(2) at le by (rule contextCallback_multi_throws)
  have "forEach ?f (context' e) 0 [fileLine K e] = Inl RangeError"
    unfolding forEach_split [OF k at] cb by simp
  then have "formatError_output K e contextLines = Inl RangeError"
    using assms(1) nonempty
    by (simp add: formatError_output_def pushFile_def Let_def)
  then show ?thesis by (simp add: formatError_def)
qed

text \<open>
  The failing input of C2: a range from line 0, column 4 to line 1, column 0 (an
  unclosed bracket that runs to the end of its line), with both lines as context.
\<close>

theorem formatError_multi_line_end_character_zero_witness:
  "range' ex_end_column_zero =
     Some \<lparr>start = \<lparr>line = 0, character = 4\<rparr>, end' = \<lparr>line = 1, character = 0\<rparr>\<rparr>
   \<and> context' ex_end_column_zero = [lit ''x = ['', lit '''']
   \<and> formatError plain ex_end_column_zero 2 = Inl RangeError"
proof -
  let ?r = "\<lparr>start = \<lparr>line = 0, character = 4\<rparr>, end' = \<lparr>line = 1, character = 0\<rparr>\<rparr>"
  have r: "range' ex_end_column_zero = Some ?r"
    by (simp add: ex_end_column_zero_def new_PyrightError_def)
  have ctx: "context' ex_end_column_zero = [lit ''x = ['', lit '''']"
    by (simp add: ex_end_column_zero_def new_PyrightError_def)
  have h2: "line (start ?r) \<noteq> line (end' ?r)" by simp
  have h3: "character (end' ?r) = 0" by simp
  have h4: "max 0 (line (start ?r) - 2) \<le> line (end' ?r)" by simp
  have h5: "line (end' ?r) <
              max 0 (line (start ?r) - 2) + int (length (context' ex_end_column_zero))"
    by (simp add: ctx)
  show ?thesis
    using formatError_multi_line_end_character_zero [OF r h2 h3 h4 h5, of plain] r ctx
    by simp
qed

subsection \<open>C3: the indicator of a multi-line range\<close>




subsection \<open>C5: an empty context leaves the header alone\<close>

text \<open>
  Claim C5. For every diagnostic with a range and an empty context, the output of
  \<open>formatError\<close> is the header line alone: the coloured severity, a space, the file
  with the start line and column counted from 1 in blue, and, when the rule is not
  empty, an arrow and the rule name in dim red. There is no context block, no
  indicator line and no help line.
\<close>

theorem formatError_empty_context_header_only:
  assumes "range' e = Some r" and "context' e = []"
  shows "formatError_output K e contextLines = Inr [fileLine K e]
       \<and> formatError K e contextLines = Inr (fileLine K e)
       \<and> fileLine K e =
           (case severity e of
              Error \<Rightarrow> red K (lit ''error'')
            | Warning \<Rightarrow> yellow K (lit ''warning'')
            | Information \<Rightarrow> green K (lit ''information'')) @
           lit '' '' @
           blue K (file' e @ lit '':'' @ showInt (line (start r) + 1) @ lit '':'' @
                   showInt (character (start r) + 1)) @
           (if rule e = [] then []
            else lit '' '' @ [ARROW] @ lit '' '' @ dim K (red K (rule e)))"
  using assms
  by (simp add: formatError_def formatError_output_def pushFile_def fileLine_def dimRed_def)

text \<open>Witness for C5: a warning at line 41, column 8 whose file could not be read.\<close>

theorem formatError_empty_context_header_only_witness:
  "range' ex_no_context = Some \<lparr>start = \<lparr>line = 41, character = 8\<rparr>,
                                 end' = \<lparr>line = 41, character = 12\<rparr>\<rparr>
   \<and> context' ex_no_context = []
   \<and> formatError plain ex_no_context 2 =
       Inr (lit ''warning pkg/mod.py:42:9 '' @ [ARROW] @ lit '' reportUnusedVariable'')"
  using formatError_empty_context_header_only
    [where e = ex_no_context and K = plain and contextLines = 2
       and r = "\<lparr>start = \<lparr>line = 41, character = 8\<rparr>, end' = \<lparr>line = 41, character = 12\<rparr>\<rparr>"]
  by (simp add: ex_no_context_def new_PyrightError_def plain_def lit_def showInt_def)

subsection \<open>C6: import cycles\<close>



section \<open>The context loader: claims\<close>

subsection \<open>C4: the window of context lines\<close>

text \<open>
  Claim C4, as amended. For every diagnostic with a range (end line not negative)
  and a readable file, and a context-line count that is not negative, \<open>getContext\<close>
  returns exactly the lines of the file, split at newlines, with indices from
  \<open>max 0 (start.line - contextLines)\<close> up to but not including
  \<open>min totalLines (end.line + contextLines + 1)\<close>, in order. When the start line is a
  line of the file (\<open>0 \<le> start.line < totalLines\<close>) and does not come after the end
  line, it lies in this window, and the context holds it at index
  \<open>start.line - max 0 (start.line - contextLines)\<close>. A non-empty window of a file
  with no more than \<open>start.line\<close> lines does not hold the start line.
\<close>

theorem getContext_window:
  assumes "range' d = Some r"
    and "files w (file' d) = Inr content"
    and "0 \<le> line (end' r)" and "0 \<le> contextLines"
  shows "fst (getContext d contextLines w) =
           map ((!) (js_split NEWLINE content))
             [nat (max 0 (line (start r) - contextLines)) ..<
              nat (min (int (length (js_split NEWLINE content)))
                     (line (end' r) + contextLines + 1))]
       \<and> (0 \<le> line (start r) \<and> line (start r) \<le> line (end' r)
            \<and> line (start r) < int (length (js_split NEWLINE content)) \<longrightarrow>
          max 0 (line (start r) - contextLines) \<le> line (start r)
          \<and> line (start r) < min (int (length (js_split NEWLINE content)))
                                (line (end' r) + contextLines + 1)
          \<and> fst (getContext d contextLines w) !
               nat (line (start r) - max 0 (line (start r) - contextLines)) =
             js_split NEWLINE content ! nat (line (start r)))"
proof -
  let ?lines = "js_split NEWLINE content"
  let ?a = "max 0 (line (start r) - contextLines)"
  let ?b = "min (int (length ?lines)) (line (end' r) + contextLines + 1)"
  have res: "fst (getContext d contextLines w) = map ((!) ?lines) [nat ?a ..< nat ?b]"
    using assms by (rule getContext_upt)
  have incl: "fst (getContext d contextLines w) ! nat (line (start r) - ?a)
              = ?lines ! nat (line (start r))"
    if "0 \<le> line (start r)" "line (start r) \<le> line (end' r)"
       "line (start r) < int (length ?lines)"
  proof -
    have lt: "nat (line (start r) - ?a) < nat ?b - nat ?a"
      using that assms(4) by auto
    have "map ((!) ?lines) [nat ?a ..< nat ?b] ! nat (line (start r) - ?a)
          = ?lines ! (nat ?a + nat (line (start r) - ?a))"
      using lt by (rule nth_map_upt)
    moreover have "nat ?a + nat (line (start r) - ?a) = nat (line (start r))"
      using that assms(4) by auto
    ultimately show ?thesis by (simp add: res)
  qed
  show ?thesis
    using res incl assms(3,4) by auto
qed

text \<open>
  Witness for C4: line 2 of a file of five lines, with two lines of context: the
  window is the whole file, and its element 2 is the start line.
\<close>

theorem getContext_window_witness:
  "range' diag_line_two = Some \<lparr>start = \<lparr>line = 2, character = 9\<rparr>,
                                 end' = \<lparr>line = 2, character = 11\<rparr>\<rparr>
   \<and> files world_sources (file' diag_line_two) = Inr file_five_lines
   \<and> fst (getContext diag_line_two 2 world_sources) =
       [lit ''import os'', lit '''', lit ''x: int = os'', lit ''y = 2'', lit '''']
   \<and> fst (getContext diag_line_two 2 world_sources) ! 2 = lit ''x: int = os''"
  using getContext_window
    [where d = diag_line_two and w = world_sources and content = file_five_lines
       and contextLines = 2
       and r = "\<lparr>start = \<lparr>line = 2, character = 9\<rparr>, end' = \<lparr>line = 2, character = 11\<rparr>\<rparr>"]
  by (simp add: diag_line_two_def world_sources_def split_five lit_def upt_rec)

text \<open>
  Claim C4 as stated fails in its second half: the file \<open>mac.py\<close> splits into one
  line, the diagnostic is on line 1, and the window \<open>[0, 1)\<close> is not empty but does
  not hold line 1.
\<close>

theorem getContext_window_excludes_start_line:
  "range' diag_cr_line_one = Some \<lparr>start = \<lparr>line = 1, character = 4\<rparr>,
                                    end' = \<lparr>line = 1, character = 5\<rparr>\<rparr>
   \<and> files world_sources (file' diag_cr_line_one) = Inr file_cr_endings
   \<and> js_split NEWLINE file_cr_endings = [file_cr_endings]
   \<and> fst (getContext diag_cr_line_one 2 world_sources) = [file_cr_endings]
   \<and> \<not> (max 0 (1 - 2) \<le> (1::int) \<and>
          (1::int) < min (int (length (js_split NEWLINE file_cr_endings))) (1 + 2 + 1))"
  by (simp add: diag_cr_line_one_def world_sources_def file_cr_endings_def getContext_def
      getContext_try_def readFile_def js_slice_def lit_def NEWLINE_def)

subsection \<open>C7: the window around line 10 of twenty lines\<close>

text \<open>
  Claim C7, as amended. For a diagnostic with \<open>start.line = end.line = 10\<close> and two
  context lines on a file of twenty lines, the loaded context consists of 5 lines,
  the zero-based lines 8 to 12: two before, the line itself and two after. The bound
  \<open>end.line + contextLines + 1 = 13\<close> is exclusive.
\<close>

theorem getContext_twenty_lines:
  assumes "range' d = Some r"
    and "line (start r) = 10" and "line (end' r) = 10"
    and "files w (file' d) = Inr content"
    and "length (js_split NEWLINE content) = 20"
  shows "fst (getContext d 2 w) = map ((!) (js_split NEWLINE content)) [8, 9, 10, 11, 12]
       \<and> length (fst (getContext d 2 w)) = 5"
proof -
  have "fst (getContext d 2 w) = map ((!) (js_split NEWLINE content)) [nat 8 ..< nat 13]"
    using getContext_upt [OF assms(1) assms(4), of 2] assms(2,3,5) by simp
  moreover have "[nat 8 ..< nat 13] = [8, 9, 10, 11, 12]"
    by (simp add: upt_rec)
  ultimately show ?thesis by simp
qed

text \<open>Witness for C7: the file whose lines are \<open>l0\<close> to \<open>l19\<close>.\<close>

theorem getContext_twenty_lines_witness:
  "range' diag_line_ten = Some \<lparr>start = \<lparr>line = 10, character = 0\<rparr>,
                                 end' = \<lparr>line = 10, character = 3\<rparr>\<rparr>
   \<and> files world_twenty (file' diag_line_ten) = Inr (js_join [NEWLINE] lines_twenty)
   \<and> length (js_split NEWLINE (js_join [NEWLINE] lines_twenty)) = 20
   \<and> fst (getContext diag_line_ten 2 world_twenty) =
       [lit ''l8'', lit ''l9'', lit ''l10'', lit ''l11'', lit ''l12'']"
  using getContext_twenty_lines
    [where d = diag_line_ten and w = world_twenty
       and content = "js_join [NEWLINE] lines_twenty"
       and r = "\<lparr>start = \<lparr>line = 10, character = 0\<rparr>, end' = \<lparr>line = 10, character = 3\<rparr>\<rparr>"]
  by (simp add: diag_line_ten_def world_twenty_def split_twenty)
     (simp add: lines_twenty_def)

text \<open>
  Claim C7 as stated fails: on that file the context has 5 lines, not 6, and line
  13 is not among them.
\<close>

theorem getContext_twenty_lines_not_six:
  "length (js_split NEWLINE (js_join [NEWLINE] lines_twenty)) = 20
   \<and> fst (getContext diag_line_ten 2 world_twenty) =
       [lit ''l8'', lit ''l9'', lit ''l10'', lit ''l11'', lit ''l12'']
   \<and> length (fst (getContext diag_line_ten 2 world_twenty)) \<noteq> 6
   \<and> js_split NEWLINE (js_join [NEWLINE] lines_twenty) ! 13 = lit ''l13''
   \<and> lit ''l13'' \<notin> set (fst (getContext diag_line_ten 2 world_twenty))"
  by (simp add: diag_line_ten_def world_twenty_def getContext_def getContext_try_def
      readFile_def split_twenty js_slice_def)
     (simp add: lines_twenty_def lit_def)

subsection \<open>C8: a failed read gives an empty context\<close>

text \<open>
  Claim C8. For every diagnostic with a range, if \<open>readFile\<close> rejects with any
  error, the \<open>try\<close> block of \<open>getContext\<close> ends in that error and \<open>getContext\<close>
  returns the empty sequence; its result is a list, never an error. For a
  diagnostic with no range it returns the empty sequence and leaves the world as it
  was: no read is attempted.
\<close>

theorem getContext_swallows_read_failure:
  "(range' d \<noteq> None \<and> files w (file' d) = Inl err \<longrightarrow>
      fst (getContext_try d contextLines w) = Inl err \<and>
      getContext d contextLines w = ([], w\<lparr>reads := reads w @ [file' d]\<rparr>)) \<and>
   (range' d = None \<longrightarrow> getContext d contextLines w = ([], w))"
  by (auto simp: getContext_def getContext_try_def readFile_def)

text \<open>Witness for C8: a diagnostic on a missing file, and a file-level diagnostic.\<close>

theorem getContext_swallows_read_failure_witness:
  "range' diag_missing_file \<noteq> None
   \<and> files world_sources (file' diag_missing_file) = Inl ENOENT
   \<and> getContext diag_missing_file 2 world_sources =
       ([], world_sources\<lparr>reads := [lit ''gone.py'']\<rparr>)
   \<and> range' diag_file_level = None
   \<and> getContext diag_file_level 2 world_sources = ([], world_sources)"
  using getContext_swallows_read_failure
      [where d = diag_missing_file and w = world_sources and err = ENOENT
         and contextLines = 2]
    getContext_swallows_read_failure
      [where d = diag_file_level and w = world_sources and contextLines = 2]
  by (simp add: diag_missing_file_def diag_file_level_def world_sources_def lit_def)

section \<open>Running the checker: claims\<close>

subsection \<open>C9: exit status 0\<close>

text \<open>
  Claim C9. Whenever the checker exits with status 0, \<open>check\<close> resolves to a report
  with no diagnostics whose \<open>filesAnalyzed\<close> is the number of requested targets,
  whatever was written to stdout and whatever \<open>JSON.parse\<close> would make of it; no
  file is read.
\<close>

theorem check_exit_zero:
  assumes "code (spawn E (lit ''pyright'')
             ([lit ''--outputjson''] @ options @
              (case fs of OneFile f \<Rightarrow> [f] | FileList l \<Rightarrow> l))) = Some 0"
  shows "check E fs options w =
           (Resolved
              \<lparr>version = [], time = [], generalDiagnostics = [],
               summary = \<lparr>filesAnalyzed =
                            int (length (case fs of OneFile f \<Rightarrow> [f] | FileList l \<Rightarrow> l)),
                          errorCount = 0, warningCount = 0, informationCount = 0,
                          timeInSec = 0\<rparr>\<rparr>,
            w)"
  using assms by (simp add: check_def Let_def)

text \<open>Witness for C9: three targets, and a stdout that is not JSON.\<close>

theorem check_exit_zero_witness:
  "code (spawn env_exit_zero (lit ''pyright'')
      ([lit ''--outputjson''] @ [] @ [lit ''a.py'', lit ''b.py'', lit ''pkg''])) = Some 0
   \<and> check env_exit_zero (FileList [lit ''a.py'', lit ''b.py'', lit ''pkg'']) [] world_sources =
       (Resolved
          \<lparr>version = [], time = [], generalDiagnostics = [],
           summary = \<lparr>filesAnalyzed = 3, errorCount = 0, warningCount = 0,
                      informationCount = 0, timeInSec = 0\<rparr>\<rparr>,
        world_sources)"
  using check_exit_zero
    [where E = env_exit_zero and options = "[]"
       and fs = "FileList [lit ''a.py'', lit ''b.py'', lit ''pkg'']" and w = world_sources]
  by (simp add: env_exit_zero_def)

subsection \<open>C10: a non-zero exit keeps the parsed report\<close>

text \<open>
  Claim C10. Whenever the checker exits with another status and stdout parses as a
  report, \<open>check\<close> resolves to that report with \<open>version\<close>, \<open>time\<close> and \<open>summary\<close>
  unchanged and \<open>generalDiagnostics\<close> replaced by a list of the same length and
  order. Its i-th element is the \<open>PyrightError\<close> of the i-th parsed diagnostic: its
  field \<open>diagnostic\<close> is that diagnostic, its field \<open>context\<close> is what \<open>getContext\<close>
  loads for that diagnostic with two context lines, its fields \<open>file\<close>, \<open>severity\<close>,
  \<open>message\<close>, \<open>range\<close> and \<open>rule\<close> are copies of the diagnostic's, and its name is
  \<open>PyrightError\<close>.
\<close>

theorem check_nonzero_keeps_report:
  assumes "code (spawn E (lit ''pyright'')
             ([lit ''--outputjson''] @ options @
              (case fs of OneFile f \<Rightarrow> [f] | FileList l \<Rightarrow> l))) \<noteq> Some 0"
    and "json_parse E (stdout (spawn E (lit ''pyright'')
             ([lit ''--outputjson''] @ options @
              (case fs of OneFile f \<Rightarrow> [f] | FileList l \<Rightarrow> l)))) = Some out"
  shows "\<exists>res. fst (check E fs options w) = Resolved res
           \<and> version res = version out \<and> time res = time out \<and> summary res = summary out
           \<and> length (generalDiagnostics res) = length (generalDiagnostics out)
           \<and> map diagnostic (generalDiagnostics res) = generalDiagnostics out
           \<and> map context' (generalDiagnostics res) =
               map (\<lambda>d. fst (getContext d 2 w)) (generalDiagnostics out)
           \<and> generalDiagnostics res =
               map (\<lambda>d. \<lparr>file' = file' d, severity = severity d, message = message d,
                          range' = range' d, rule = rule d, name = lit ''PyrightError'',
                          diagnostic = d, context' = fst (getContext d 2 w)\<rparr>)
                 (generalDiagnostics out)"
proof -
  let ?wrap = "\<lambda>d. \<lparr>file' = file' d, severity = severity d, message = message d,
                     range' = range' d, rule = rule d, name = lit ''PyrightError'',
                     diagnostic = d, context' = fst (getContext d 2 w)\<rparr>"
  let ?res = "\<lparr>version = version out, time = time out,
               generalDiagnostics = map ?wrap (generalDiagnostics out),
               summary = summary out\<rparr>"
  have wrap: "(\<lambda>d. new_PyrightError d (fst (getContext d 2 w))) = ?wrap"
    by (simp add: new_PyrightError_def)
  have "fst (check E fs options w) = Resolved ?res"
    using assms by (simp add: check_def Let_def withContext_map wrap)
  moreover have "map diagnostic (map ?wrap (generalDiagnostics out)) = generalDiagnostics out"
    by (simp add: comp_def)
  moreover have "map context' (map ?wrap (generalDiagnostics out)) =
                   map (\<lambda>d. fst (getContext d 2 w)) (generalDiagnostics out)"
    by (simp add: comp_def)
  ultimately show ?thesis
    by (intro exI [of _ ?res]) simp
qed

text \<open>
  Witness for C10: a report of two diagnostics, the first on a readable file of five
  lines, the second on a missing file.
\<close>

theorem check_nonzero_keeps_report_witness:
  "code (spawn env_exit_one (lit ''pyright'')
      ([lit ''--outputjson''] @ [] @ [lit ''five.py''])) \<noteq> Some 0
   \<and> json_parse env_exit_one (stdout (spawn env_exit_one (lit ''pyright'')
      ([lit ''--outputjson''] @ [] @ [lit ''five.py'']))) = Some report_two
   \<and> (\<exists>res. fst (check env_exit_one (OneFile (lit ''five.py'')) [] world_sources) =
               Resolved res
         \<and> version res = lit ''1.1.300'' \<and> time res = lit ''1700000000''
         \<and> summary res = \<lparr>filesAnalyzed = 2, errorCount = 2, warningCount = 0,
                            informationCount = 0, timeInSec = 1.5\<rparr>
         \<and> map diagnostic (generalDiagnostics res) = [diag_line_two, diag_missing_file]
         \<and> map context' (generalDiagnostics res) =
             [[lit ''import os'', lit '''', lit ''x: int = os'', lit ''y = 2'', lit ''''], []]
         \<and> map file' (generalDiagnostics res) = [lit ''five.py'', lit ''gone.py'']
         \<and> map rule (generalDiagnostics res) = [lit ''reportAssignmentType'', lit ''r'']
         \<and> map name (generalDiagnostics res) = [lit ''PyrightError'', lit ''PyrightError''])"
proof -
  have ctx1: "fst (getContext diag_line_two 2 world_sources) =
                [lit ''import os'', lit '''', lit ''x: int = os'', lit ''y = 2'', lit '''']"
    by (simp add: diag_line_two_def world_sources_def getContext_def getContext_try_def
        readFile_def split_five js_slice_def)
  have ctx2: "fst (getContext diag_missing_file 2 world_sources) = []"
    by (simp add: diag_missing_file_def world_sources_def getContext_def getContext_try_def
        readFile_def lit_def)
  have exit: "code (spawn env_exit_one (lit ''pyright'')
      ([lit ''--outputjson''] @ [] @ (case OneFile (lit ''five.py'') of
          OneFile f \<Rightarrow> [f] | FileList l \<Rightarrow> l))) \<noteq> Some 0"
    by (simp add: env_exit_one_def)
  have parse: "json_parse env_exit_one (stdout (spawn env_exit_one (lit ''pyright'')
      ([lit ''--outputjson''] @ [] @ (case OneFile (lit ''five.py'') of
          OneFile f \<Rightarrow> [f] | FileList l \<Rightarrow> l)))) = Some report_two"
    by (simp add: env_exit_one_def)
  obtain res where res:
    "fst (check env_exit_one (OneFile (lit ''five.py'')) [] world_sources) = Resolved res"
    "version res = version report_two" "time res = time report_two"
    "summary res = summary report_two"
    "map diagnostic (generalDiagnostics res) = generalDiagnostics report_two"
    "map context' (generalDiagnostics res) =
       map (\<lambda>d. fst (getContext d 2 world_sources)) (generalDiagnostics report_two)"
    "generalDiagnostics res =
       map (\<lambda>d. \<lparr>file' = file' d, severity = severity d, message = message d,
                  range' = range' d, rule = rule d, name = lit ''PyrightError'',
                  diagnostic = d, context' = fst (getContext d 2 world_sources)\<rparr>)
         (generalDiagnostics report_two)"
    using check_nonzero_keeps_report [OF exit parse, of world_sources] by blast
  have gd: "generalDiagnostics report_two = [diag_line_two, diag_missing_file]"
    by (simp add: report_two_def)
  have f1: "file' diag_line_two = lit ''five.py''" "rule diag_line_two = lit ''reportAssignmentType''"
    by (simp_all add: diag_line_two_def)
  have f2: "file' diag_missing_file = lit ''gone.py''" "rule diag_missing_file = lit ''r''"
    by (simp_all add: diag_missing_file_def)
  have "version res = lit ''1.1.300''" "time res = lit ''1700000000''"
    "summary res = \<lparr>filesAnalyzed = 2, errorCount = 2, warningCount = 0,
                     informationCount = 0, timeInSec = 1.5\<rparr>"
    using res(2,3,4) by (simp_all add: report_two_def)
  moreover have "map diagnostic (generalDiagnostics res) = [diag_line_two, diag_missing_file]"
    using res(5) gd by simp
  moreover have "map context' (generalDiagnostics res) =
      [[lit ''import os'', lit '''', lit ''x: int = os'', lit ''y = 2'', lit ''''], []]"
    using res(6) gd ctx1 ctx2 by simp
  moreover have "map file' (generalDiagnostics res) = [lit ''five.py'', lit ''gone.py'']"
    "map rule (generalDiagnostics res) = [lit ''reportAssignmentType'', lit ''r'']"
    "map name (generalDiagnostics res) = [lit ''PyrightError'', lit ''PyrightError'']"
    using res(7) gd f1 f2 by simp_all
  ultimately show ?thesis
    using res(1) exit parse by simp
qed

end
